theory Spec2Isabelle
  imports Main
begin

section \<open>Strings of the client\<close>

text \<open>
  The client is TypeScript. Its strings are modelled as \<^typ>\<open>string\<close>: one \<^typ>\<open>char\<close>
  per UTF-16 code unit, for code units below 256. That covers every text that the chain
  providers return (hexadecimal payloads, transaction hashes, network names). Text that
  the client \<^emph>\<open>decodes\<close> out of a payload may hold any Unicode character and is therefore
  a list of code points (\<^typ>\<open>nat list\<close>).
\<close>

type_synonym unicode = "nat list"

definition ascii :: "string \<Rightarrow> unicode" where
  "ascii s = map of_char s"

text \<open>\<^verbatim>\<open>s.substr(n)\<close> and \<^verbatim>\<open>s.slice(n)\<close> for \<open>0 \<le> n\<close> are \<^term>\<open>drop n s\<close>;
  \<^verbatim>\<open>s.slice(0, n)\<close> and \<^verbatim>\<open>s.substring(0, n)\<close> are \<^term>\<open>take n s\<close>.
  \<^verbatim>\<open>s.slice(start, end)\<close> clamps both positions to the length and is empty when
  \<open>end \<le> start\<close>; an \<open>end\<close> that is \<^verbatim>\<open>NaN\<close> (\<^term>\<open>None\<close>) counts as 0.\<close>

definition slice :: "string \<Rightarrow> nat \<Rightarrow> nat option \<Rightarrow> string" where
  "slice s start end = (case end of
       None \<Rightarrow> []
     | Some e \<Rightarrow> take (e - start) (drop start s))"

text \<open>\<^verbatim>\<open>s.replace(/0+$/, "")\<close>: the maximal run of \<^verbatim>\<open>0\<close> characters at the end of
  the string is removed.\<close>

definition stripTrailingZeros :: "string \<Rightarrow> string" where
  "stripTrailingZeros s = rev (dropWhile (\<lambda>c. c = CHR ''0'') (rev s))"

text \<open>The character class \<^verbatim>\<open>[A-Fa-f0-9]\<close>, by character codes.\<close>

definition hexDigit :: "char \<Rightarrow> bool" where
  "hexDigit c = (let n = (of_char c :: nat) in
     (65 \<le> n \<and> n \<le> 70) \<or> (97 \<le> n \<and> n \<le> 102) \<or> (48 \<le> n \<and> n \<le> 57))"

definition hexValue :: "char \<Rightarrow> nat" where
  "hexValue c = (let n = (of_char c :: nat) in
     if 48 \<le> n \<and> n \<le> 57 then n - 48
     else if 97 \<le> n \<and> n \<le> 102 then n - 87
     else n - 55)"

text \<open>\<^verbatim>\<open>parseInt(`0x${h}`, 16)\<close>: the radix prefix is skipped, then the longest run of
  hexadecimal digits at the start of \<open>h\<close> is read; no digit at all gives \<^verbatim>\<open>NaN\<close>
  (\<^term>\<open>None\<close>). JavaScript rounds a result above \<open>2^53\<close> to a double. The client uses
  the number only as the end position of a \<^verbatim>\<open>slice\<close>, which clamps it to the length
  of the string, and both the exact and the rounded value are then beyond every string
  length; so the exact value is kept here.\<close>

definition parseInt16 :: "string \<Rightarrow> nat option" where
  "parseInt16 h = (let ds = takeWhile hexDigit h in
     if ds = [] then None
     else Some (foldl (\<lambda>acc d. 16 * acc + hexValue d) 0 ds))"

section \<open>Errors\<close>

text \<open>What a provider throws. The client only ever looks at
  \<^verbatim>\<open>JSON.parse(err.responseText).error\<close>: \<open>RpcError code data\<close> is an error whose
  response text parses to an object with an \<^verbatim>\<open>error\<close> object inside, \<open>code\<close> being
  its \<^verbatim>\<open>code\<close> when that is an integer and \<open>data\<close> its \<^verbatim>\<open>data\<close> when that is a
  string; \<open>OpaqueError\<close> is every other thrown value (there the \<^verbatim>\<open>JSON.parse\<close> or
  the property access throws in turn).\<close>

datatype provider_error = RpcError "int option" "string option" | OpaqueError

text \<open>The failures of the client, named as the specification names them. In the source
  they are \<^verbatim>\<open>Error\<close> objects told apart by their message (given below), apart from
  \<open>NotFoundError\<close>, which is the thrown string \<^verbatim>\<open>"No ABI found"\<close>.\<close>

datatype error =
    NotFoundError \<comment> \<open>\<^verbatim>\<open>throw "No ABI found"\<close>\<close>
  | SchemaError \<comment> \<open>\<^verbatim>\<open>"No outputs in ABI"\<close>\<close>
  | InvalidInputError string \<comment> \<open>\<^verbatim>\<open>"Invalid transaction hash"\<close>, \<^verbatim>\<open>"Not a valid network"\<close>\<close>
  | UnsupportedProviderError \<comment> \<open>\<^verbatim>\<open>"Please use a provider that exposes the Parity trace methods ..."\<close>\<close>
  | FutureBlockError \<comment> \<open>\<^verbatim>\<open>"You cannot use a blocknumber that has not yet happened."\<close>\<close>
  | ArchiveRequiredError \<comment> \<open>\<^verbatim>\<open>"You cannot use a blocknumber that is older than 128 blocks. ..."\<close>\<close>
  | DecodeFailure \<comment> \<open>\<^verbatim>\<open>"Unable to decode revert reason."\<close>\<close>
  | TransportError provider_error \<comment> \<open>an error of a provider, passed on as it is\<close>
  | CodecError string \<comment> \<open>thrown by the ABI or UTF-8 codec of a library\<close>
  | RuntimeError \<comment> \<open>a \<^verbatim>\<open>TypeError\<close> or \<^verbatim>\<open>SyntaxError\<close> of the language itself\<close>

section \<open>The UTF-8 codec of the ethers library\<close>

text \<open>Modelled from the spec: \<^verbatim>\<open>ethers.utils.toUtf8String\<close> belongs to the ethers
  library, which is not part of the repository. The specification says of it that the
  remainder of the payload is decoded as UTF-8, and that an exception of the decode stage
  is reported as a decode failure. The model is the library's documented behaviour: the
  argument must be \<^verbatim>\<open>0x\<close> followed by an even number of hexadecimal digits, each pair
  is one byte, and the bytes must be well-formed UTF-8 (no stray or missing continuation
  byte, no overlong form, no surrogate, nothing above \<open>0x10FFFF\<close>); everything else
  throws.\<close>

fun hexBytes :: "string \<Rightarrow> nat list" where
  "hexBytes (a # b # rest) = (16 * hexValue a + hexValue b) # hexBytes rest"
| "hexBytes _ = []"

definition arrayify :: "string \<Rightarrow> error + nat list" where
  "arrayify s =
     (if take 2 s = ''0x'' \<and> list_all hexDigit (drop 2 s) then
        (if length (drop 2 s) mod 2 = 1 then Inl (CodecError ''hex data is odd-length'')
         else Inr (hexBytes (drop 2 s)))
      else Inl (CodecError ''invalid arrayify value''))"

definition continuation :: "nat \<Rightarrow> bool" where
  "continuation b = (b div 64 = 2)"

fun getUtf8CodePoints :: "nat list \<Rightarrow> unicode option" where
  "getUtf8CodePoints [] = Some []"
| "getUtf8CodePoints (c # bs) =
     (if c < 128 then map_option ((#) c) (getUtf8CodePoints bs)
      else if c div 32 = 6 then
        (case bs of
           b1 # r \<Rightarrow>
             (let res = (c mod 32) * 64 + b1 mod 64 in
              if continuation b1 \<and> 127 < res
              then map_option ((#) res) (getUtf8CodePoints r) else None)
         | _ \<Rightarrow> None)
      else if c div 16 = 14 then
        (case bs of
           b1 # b2 # r \<Rightarrow>
             (let res = ((c mod 16) * 64 + b1 mod 64) * 64 + b2 mod 64 in
              if continuation b1 \<and> continuation b2 \<and> 2047 < res
                 \<and> \<not> (55296 \<le> res \<and> res \<le> 57343)
              then map_option ((#) res) (getUtf8CodePoints r) else None)
         | _ \<Rightarrow> None)
      else if c div 8 = 30 then
        (case bs of
           b1 # b2 # b3 # r \<Rightarrow>
             (let res = (((c mod 8) * 64 + b1 mod 64) * 64 + b2 mod 64) * 64 + b3 mod 64 in
              if continuation b1 \<and> continuation b2 \<and> continuation b3
                 \<and> 65535 < res \<and> res \<le> 1114111
              then map_option ((#) res) (getUtf8CodePoints r) else None)
         | _ \<Rightarrow> None)
      else None)"

definition toUtf8String :: "string \<Rightarrow> error + unicode" where
  "toUtf8String s = (case arrayify s of
       Inl e \<Rightarrow> Inl e
     | Inr bytes \<Rightarrow> (case getUtf8CodePoints bytes of
           None \<Rightarrow> Inl (CodecError ''invalid codepoint'')
         | Some cps \<Rightarrow> Inr cps))"

section \<open>Decoding a revert payload: \<^verbatim>\<open>decodeMessage\<close>\<close>

text \<open>The last two statements of \<^verbatim>\<open>decodeMessage\<close>: a code string with an odd number
  of characters gets one more \<^verbatim>\<open>0\<close>, then the library decodes it.\<close>

definition padOdd :: "string \<Rightarrow> string" where
  "padOdd codeString = (if length codeString mod 2 = 1 then codeString @ ''0'' else codeString)"

text \<open>The value of \<^verbatim>\<open>codeString\<close> that each branch assigns.\<close>

definition kovanCodeString :: "string \<Rightarrow> string" where
  "kovanCodeString code =
     (let fnSelectorByteLength = 4 :: nat;
          dataOffsetByteLength = 32 :: nat;
          strLengthByteLength = 32 :: nat;
          strLengthStartPos = 2 + (fnSelectorByteLength + dataOffsetByteLength) * 2;
          strDataStartPos =
            2 + (fnSelectorByteLength + dataOffsetByteLength + strLengthByteLength) * 2;
          strLengthHex = take (strLengthByteLength * 2) (drop strLengthStartPos code);
          strLengthInt = parseInt16 strLengthHex;
          strDataEndPos = map_option (\<lambda>n. strDataStartPos + n * 2) strLengthInt
      in ''0x'' @ slice code strDataStartPos strDataEndPos)"

definition plainCodeString :: "string \<Rightarrow> string" where
  "plainCodeString code = stripTrailingZeros (''0x'' @ drop 138 code)"

text \<open>\<^verbatim>\<open>let codeString;\<close> declares the variable without a value: it is \<^verbatim>\<open>undefined\<close>
  (\<^term>\<open>None\<close>) until a branch assigns it. The kovan branch compares it with
  \<^verbatim>\<open>"0x"\<close> before its assignment.\<close>

definition decodeMessage :: "string \<Rightarrow> string \<Rightarrow> error + unicode" where
  "decodeMessage code network =
     (let codeString = (None :: string option) in
      if network = ''kovan'' then
        (if codeString = Some ''0x'' then Inr []
         else toUtf8String (padOdd (kovanCodeString code)))
      else toUtf8String (padOdd (plainCodeString code)))"

section \<open>The wire format of a revert reason\<close>

text \<open>Modelled from the spec: the standard ABI encoding of \<^verbatim>\<open>Error(string)\<close>, which no
  function of the repository produces (the chain does). The specification gives the
  layout: the 4-byte selector \<^verbatim>\<open>08c379a0\<close>, a 32-byte offset (32), the 32-byte length
  of the string, then the bytes of the string, padded on the right with zero bytes to a
  multiple of 32 bytes; all in hexadecimal after \<^verbatim>\<open>0x\<close>. The string is given by its
  bytes.\<close>

definition hexChar :: "nat \<Rightarrow> char" where
  "hexChar n = ''0123456789abcdef'' ! (n mod 16)"

fun natHex :: "nat \<Rightarrow> nat \<Rightarrow> string" where
  "natHex 0 n = []"
| "natHex (Suc k) n = natHex k (n div 16) @ [hexChar n]"

definition encodeErrorString :: "string \<Rightarrow> string" where
  "encodeErrorString s =
     (let strData = concat (map (\<lambda>c. natHex 2 (of_char c)) s);
          padding = replicate ((64 - length strData mod 64) mod 64) CHR ''0''
      in ''0x'' @ ''08c379a0'' @ natHex 64 32 @ natHex 64 (length s) @ strData @ padding)"

section \<open>The method registry: \<^verbatim>\<open>findInABI\<close>\<close>

text \<open>An \<^verbatim>\<open>AbiItem\<close> of web3-utils: \<^verbatim>\<open>name\<close>, \<^verbatim>\<open>inputs\<close> and \<^verbatim>\<open>outputs\<close> are
  optional fields there, so they are options here. In \<^verbatim>\<open>ContractMethod\<close> the field
  \<open>methodAbi\<close> is the field \<^verbatim>\<open>method\<close> of the source.\<close>

record AbiParam =
  internalType :: "string option"
  paramName :: string
  paramType :: string

record AbiItem =
  inputs :: "AbiParam list option"
  itemName :: "string option"
  outputs :: "AbiParam list option"
  stateMutability :: "string option"
  itemType :: string

record ContractMethod =
  name :: string
  signature :: string
  address :: string
  abi :: "AbiItem list"
  methodAbi :: "AbiItem option"

text \<open>\<^verbatim>\<open>abi.find(current => current.name === name)\<close> is the first entry with that
  name; none is \<^verbatim>\<open>undefined\<close>, and then \<^verbatim>\<open>"No ABI found"\<close> is thrown.\<close>

definition findInABI :: "string \<Rightarrow> AbiItem list \<Rightarrow> error + AbiItem" where
  "findInABI n items =
     (case find (\<lambda>current. itemName current = Some n) items of
        None \<Rightarrow> Inl NotFoundError
      | Some ABI \<Rightarrow> Inr ABI)"

text \<open>The ABI of \<^verbatim>\<open>src/abi/simple.abi.ts\<close>.\<close>

definition simple_abi :: "AbiItem list" where
  "simple_abi =
     [\<lparr>inputs = Some [], itemName = Some ''getCalls'',
       outputs = Some [\<lparr>internalType = Some ''uint256'', paramName = [],
                        paramType = ''uint256''\<rparr>],
       stateMutability = Some ''view'', itemType = ''function''\<rparr>,
      \<lparr>inputs = Some [\<lparr>internalType = Some ''uint256'', paramName = ''num'',
                       paramType = ''uint256''\<rparr>],
       itemName = Some ''testNumber'',
       outputs = Some [],
       stateMutability = Some ''nonpayable'', itemType = ''function''\<rparr>]"

section \<open>The executor: \<^verbatim>\<open>encodeMethod\<close>, \<^verbatim>\<open>decodeOutput\<close>, \<^verbatim>\<open>call\<close>\<close>

text \<open>\<^verbatim>\<open>this.web3Instance\<close>: the web3 library bound to a chain provider. It is not part
  of the repository, so each of its functions that the client calls is a field here, and
  every theorem holds for all of them. A function that throws returns \<^term>\<open>Inl\<close>.
  \<open>'a\<close> is the type of a call argument (\<^verbatim>\<open>any\<close>), \<open>'d\<close> the type of a decoded
  result. \<^verbatim>\<open>getTransactionReceipt\<close> answers differently as time passes: its second
  argument counts the queries made so far. \<^verbatim>\<open>sendTransaction\<close> returns a stream; the
  list is what the stream is going to emit.\<close>

datatype send_event = TransactionHash string | SendError error

record TxRequest =
  txFrom :: string
  txTo :: string
  txData :: string

record Receipt =
  status :: bool
  transactionHash :: string

record TransactionReceipt = Receipt +
  revertReason :: "unicode option"

record ('a, 'd) Web3 =
  encodeFunctionSignature :: "string \<Rightarrow> error + string"
  encodeFunctionCall :: "AbiItem \<Rightarrow> 'a list \<Rightarrow> error + string"
  decodeParameters :: "(string \<times> string) list \<Rightarrow> string \<Rightarrow> error + 'd"
  ethCall :: "string \<Rightarrow> string \<Rightarrow> error + string"
  estimateGas :: "TxRequest \<Rightarrow> error + nat"
  sendTransaction :: "TxRequest \<Rightarrow> nat \<Rightarrow> error + send_event list"
  getTransactionReceipt :: "string \<Rightarrow> nat \<Rightarrow> error + Receipt option"

definition encodeMethod ::
  "('a, 'd) Web3 \<Rightarrow> ContractMethod \<Rightarrow> 'a list \<Rightarrow> error + string" where
  "encodeMethod web3Instance m args =
     (if length args = 0 then encodeFunctionSignature web3Instance (signature m)
      else (case findInABI (name m) (abi m) of
              Inl e \<Rightarrow> Inl e
            | Inr abiItem \<Rightarrow> encodeFunctionCall web3Instance abiItem args))"

text \<open>\<^verbatim>\<open>!AbiItem.outputs\<close> holds when the field is absent; an array, also the empty one,
  is truthy.\<close>

definition decodeOutput ::
  "('a, 'd) Web3 \<Rightarrow> ContractMethod \<Rightarrow> string \<Rightarrow> error + 'd" where
  "decodeOutput web3Instance m output =
     (case findInABI (name m) (abi m) of
        Inl e \<Rightarrow> Inl e
      | Inr abiItem \<Rightarrow>
          (case outputs abiItem of
             None \<Rightarrow> Inl SchemaError
           | Some outs \<Rightarrow>
               (let AbiInputs = map (\<lambda>out. (paramName out, paramType out)) outs
                in decodeParameters web3Instance AbiInputs output)))"

text \<open>\<^verbatim>\<open>call\<close> returns \<^verbatim>\<open>null\<close> (\<^term>\<open>None\<close>) or the decoded output; its
  \<^verbatim>\<open>catch\<close> throws again what it caught.\<close>

definition call ::
  "('a, 'd) Web3 \<Rightarrow> ContractMethod \<Rightarrow> 'a list \<Rightarrow> error + 'd option" where
  "call web3Instance m args =
     (case encodeMethod web3Instance m args of
        Inl e \<Rightarrow> Inl e
      | Inr dat \<Rightarrow>
          (case ethCall web3Instance (address m) dat of
             Inl e \<Rightarrow> Inl e
           | Inr result \<Rightarrow>
               if result = ''0x'' then Inr None
               else (case decodeOutput web3Instance m result of
                       Inl e \<Rightarrow> Inl e
                     | Inr decoded \<Rightarrow> Inr (Some decoded))))"

section \<open>The revert resolution engine\<close>

text \<open>An ethers provider, as \<^verbatim>\<open>ethers.getDefaultProvider(network)\<close> returns it. It is
  not part of the repository either: the four functions that the client calls are
  fields, and a function that throws returns \<^term>\<open>Inl\<close>. \<open>'tx\<close> is whatever
  \<^verbatim>\<open>getTransaction\<close> resolves to; the client hands it to \<^verbatim>\<open>call\<close> untouched. During
  one resolution the provider answers a repeated request in the same way.\<close>

record 'tx Provider =
  getTransaction :: "string \<Rightarrow> provider_error + 'tx"
  providerCall :: "'tx \<Rightarrow> string \<Rightarrow> provider_error + string"
  getBlockNumber :: "provider_error + int"
  getBalance :: "string \<Rightarrow> int \<Rightarrow> provider_error + int"

text \<open>The requests that the client sends to the provider, in the order in which it
  sends them. \<open>Replay tx blockNumber\<close> is \<^verbatim>\<open>provider.call(tx, blockNumber)\<close>, the
  re-execution of the transaction.\<close>

datatype 'tx request =
    FetchTransaction string
  | Replay 'tx string
  | FetchBlockNumber
  | FetchBalance string int

definition AddressZero :: string where
  "AddressZero = ''0x0000000000000000000000000000000000000000''"

text \<open>\<^verbatim>\<open>toLowerCase\<close> on the characters of the model: the letters \<open>A\<close> to \<open>Z\<close>, and
  the capital letters of Latin-1 (\<open>0xC0\<close> to \<open>0xDE\<close> without \<open>0xD7\<close>).\<close>

definition lowerChar :: "char \<Rightarrow> char" where
  "lowerChar c = (let n = (of_char c :: nat) in
     if (65 \<le> n \<and> n \<le> 90) \<or> (192 \<le> n \<and> n \<le> 222 \<and> n \<noteq> 215) then char_of (n + 32)
     else c)"

definition toLowerCase :: "string \<Rightarrow> string" where
  "toLowerCase s = map lowerChar s"

text \<open>\<^verbatim>\<open>blockNumber || "latest"\<close>: \<^verbatim>\<open>undefined\<close> and the empty string are falsy.\<close>

definition normalizeInput :: "string \<Rightarrow> string option \<Rightarrow> string \<times> string" where
  "normalizeInput network blockNumber =
     (toLowerCase network,
      (case blockNumber of
         None \<Rightarrow> ''latest''
       | Some b \<Rightarrow> if b = [] then ''latest'' else b))"

text \<open>The pattern \<^verbatim>\<open>/^0x([A-Fa-f0-9]{64})$/\<close>. There is no \<^verbatim>\<open>m\<close> flag, so \<^verbatim>\<open>^\<close> and
  \<^verbatim>\<open>$\<close> are the two ends of the string.\<close>

definition txHashPattern :: "string \<Rightarrow> bool" where
  "txHashPattern s =
     (case s of
        a # b # rest \<Rightarrow>
          a = CHR ''0'' \<and> b = CHR ''x'' \<and> length rest = 64 \<and> list_all hexDigit rest
      | _ \<Rightarrow> False)"

definition networks :: "string list" where
  "networks = [''mainnet'', ''kovan'', ''goerli'', ''ropsten'', ''rinkeby'']"

definition validateInputPreProvider :: "string \<Rightarrow> string \<Rightarrow> error + unit" where
  "validateInputPreProvider txHash network =
     (if \<not> txHashPattern txHash \<or> take 2 txHash \<noteq> ''0x''
      then Inl (InvalidInputError ''Invalid transaction hash'')
      else if network \<notin> set networks
      then Inl (InvalidInputError ''Not a valid network'')
      else Inr ())"

text \<open>\<^verbatim>\<open>getCode\<close>. On kovan the error of the replay is caught and the revert data taken
  out of it: \<^verbatim>\<open>JSON.parse(err.responseText).error.data.substr(9)\<close>, which throws in turn
  when there is no such text. The result comes with the requests sent.\<close>

definition getCode ::
  "'tx \<Rightarrow> string \<Rightarrow> string \<Rightarrow> 'tx Provider \<Rightarrow> 'tx request list \<times> (error + string)" where
  "getCode tx network blockNumber provider =
     ([Replay tx blockNumber],
      (if network = ''kovan'' then
         (case providerCall provider tx blockNumber of
            Inr code \<Rightarrow> Inr code
          | Inl err \<Rightarrow>
              (case err of
                 RpcError errCode (Some d) \<Rightarrow> Inr (drop 9 d)
               | _ \<Rightarrow> Inl RuntimeError))
       else
         (case providerCall provider tx blockNumber of
            Inr code \<Rightarrow> Inr code
          | Inl err \<Rightarrow> Inl (TransportError err))))"

text \<open>The first step of \<^verbatim>\<open>validateInputPostProvider\<close>, for kovan only. The call of
  \<^verbatim>\<open>getCode\<close> is not awaited: the replay is sent, its outcome is dropped, and the
  \<^verbatim>\<open>catch\<close> sees only a failure of \<^verbatim>\<open>getTransaction\<close>.\<close>

definition kovanProbe ::
  "string \<Rightarrow> string \<Rightarrow> string \<Rightarrow> 'tx Provider \<Rightarrow> 'tx request list \<times> (error + unit)" where
  "kovanProbe txHash network blockNumber provider =
     (if network = ''kovan'' then
        (case getTransaction provider txHash of
           Inl err \<Rightarrow> ([FetchTransaction txHash], Inl UnsupportedProviderError)
         | Inr tx \<Rightarrow>
             (FetchTransaction txHash # fst (getCode tx network blockNumber provider), Inr ()))
      else ([], Inr ()))"

text \<open>The second step, the validation of the block number. \<open>toNumber\<close> is the
  conversion \<^verbatim>\<open>Number(blockNumber)\<close> of the language, \<^term>\<open>None\<close> being \<^verbatim>\<open>NaN\<close>, with
  which every comparison is false. The model covers the block numbers that convert to
  an integer or to \<^verbatim>\<open>NaN\<close>.\<close>

definition checkArchive ::
  "int \<Rightarrow> 'tx Provider \<Rightarrow> 'tx request list \<times> (error + unit)" where
  "checkArchive blockNumber provider =
     ([FetchBalance AddressZero blockNumber],
      (case getBalance provider AddressZero blockNumber of
         Inr balance \<Rightarrow> Inr ()
       | Inl err \<Rightarrow>
           (case err of
              OpaqueError \<Rightarrow> Inl RuntimeError
            | RpcError errCode d \<Rightarrow>
                (let infuraErrCode = - 32002 in
                 if errCode = Some infuraErrCode then Inl ArchiveRequiredError
                 else Inr ()))))"

definition validateBlockNumber ::
  "(string \<Rightarrow> int option) \<Rightarrow> string \<Rightarrow> 'tx Provider \<Rightarrow> 'tx request list \<times> (error + unit)"
  where
  "validateBlockNumber toNumber blockNumber provider =
     (if blockNumber \<noteq> ''latest'' then
        (case getBlockNumber provider of
           Inl err \<Rightarrow> ([FetchBlockNumber], Inl (TransportError err))
         | Inr currentBlockNumber \<Rightarrow>
             (case toNumber blockNumber of
                None \<Rightarrow> ([FetchBlockNumber], Inr ())
              | Some n \<Rightarrow>
                  if n \<ge> currentBlockNumber then ([FetchBlockNumber], Inl FutureBlockError)
                  else if n < currentBlockNumber - 128 then
                    (FetchBlockNumber # fst (checkArchive n provider),
                     snd (checkArchive n provider))
                  else ([FetchBlockNumber], Inr ())))
      else ([], Inr ()))"

definition validateInputPostProvider ::
  "(string \<Rightarrow> int option) \<Rightarrow> string \<Rightarrow> string \<Rightarrow> string \<Rightarrow> 'tx Provider
     \<Rightarrow> 'tx request list \<times> (error + unit)" where
  "validateInputPostProvider toNumber txHash network blockNumber provider =
     (case kovanProbe txHash network blockNumber provider of
        (sent, Inl e) \<Rightarrow> (sent, Inl e)
      | (sent, Inr u) \<Rightarrow>
          (sent @ fst (validateBlockNumber toNumber blockNumber provider),
           snd (validateBlockNumber toNumber blockNumber provider)))"

text \<open>\<^verbatim>\<open>getRevertReason\<close>. The two validations are outside the \<^verbatim>\<open>try\<close>, so their
  errors reach the caller as they are; whatever the replay or the decoding throws becomes
  \<^verbatim>\<open>"Unable to decode revert reason."\<close>. An absent network is \<^verbatim>\<open>"mainnet"\<close>.\<close>

definition replayAndDecode ::
  "string \<Rightarrow> string \<Rightarrow> string \<Rightarrow> 'tx Provider \<Rightarrow> 'tx request list \<times> (error + unicode)" where
  "replayAndDecode txHash network blockNumber provider =
     (case getTransaction provider txHash of
        Inl err \<Rightarrow> ([FetchTransaction txHash], Inl DecodeFailure)
      | Inr tx \<Rightarrow>
          (FetchTransaction txHash # fst (getCode tx network blockNumber provider),
           (case snd (getCode tx network blockNumber provider) of
              Inl e \<Rightarrow> Inl DecodeFailure
            | Inr code \<Rightarrow>
                (case decodeMessage code network of
                   Inl e \<Rightarrow> Inl DecodeFailure
                 | Inr reason \<Rightarrow> Inr reason))))"

definition getRevertReason ::
  "(string \<Rightarrow> int option) \<Rightarrow> (string \<Rightarrow> 'tx Provider) \<Rightarrow> string \<Rightarrow> string option
     \<Rightarrow> string option \<Rightarrow> 'tx request list \<times> (error + unicode)" where
  "getRevertReason toNumber getProvider txHash network0 blockNumber0 =
     (let (network, blockNumber) =
            normalizeInput (case network0 of None \<Rightarrow> ''mainnet'' | Some n \<Rightarrow> n) blockNumber0
      in case validateInputPreProvider txHash network of
           Inl e \<Rightarrow> ([], Inl e)
         | Inr u \<Rightarrow>
             (let provider = getProvider network
              in case validateInputPostProvider toNumber txHash network blockNumber provider of
                   (sent, Inl e) \<Rightarrow> (sent, Inl e)
                 | (sent, Inr v) \<Rightarrow>
                     (sent @ fst (replayAndDecode txHash network blockNumber provider),
                      snd (replayAndDecode txHash network blockNumber provider))))"

section \<open>The client: \<^verbatim>\<open>transaction\<close> and \<^verbatim>\<open>getReceipt\<close>\<close>

text \<open>The mutable state of a \<^verbatim>\<open>Web3Service\<close> is its list of pending transactions.
  A function that changes it returns the new service together with its result. A
  function with a loop that may go on for ever returns an option, \<^term>\<open>None\<close> being
  that it never returns.\<close>

record Web3Service =
  pendingTransactions :: "string list"

text \<open>The body of the loop of \<^verbatim>\<open>getReceipt\<close> once a receipt has arrived. The revert
  reason is resolved first, and only then is the hash filtered out of the pending
  transactions: when the resolution throws, the list is as it was.\<close>

definition completeReceipt ::
  "(string \<Rightarrow> int option) \<Rightarrow> (string \<Rightarrow> 'tx Provider) \<Rightarrow> Web3Service \<Rightarrow> string \<Rightarrow> Receipt
     \<Rightarrow> Web3Service \<times> (error + TransactionReceipt)" where
  "completeReceipt toNumber getProvider service txId receipt =
     (let resolved =
            (if status receipt = False then
               (case snd (getRevertReason toNumber getProvider (transactionHash receipt)
                            (Some ''ropsten'') None) of
                  Inl e \<Rightarrow> Inl e
                | Inr reason \<Rightarrow> Inr (Some reason))
             else Inr None)
      in case resolved of
           Inl e \<Rightarrow> (service, Inl e)
         | Inr reason \<Rightarrow>
             (service\<lparr>pendingTransactions :=
                        filter (\<lambda>tx. tx \<noteq> txId) (pendingTransactions service)\<rparr>,
              Inr \<lparr>status = status receipt, transactionHash = transactionHash receipt,
                   revertReason = reason\<rparr>))"

text \<open>The loop of \<^verbatim>\<open>getReceipt\<close>; \<open>n\<close> counts the queries made so far.\<close>

partial_function (option) pollReceipt ::
  "('a, 'd) Web3 \<Rightarrow> (string \<Rightarrow> int option) \<Rightarrow> (string \<Rightarrow> 'tx Provider) \<Rightarrow> Web3Service
     \<Rightarrow> string \<Rightarrow> nat \<Rightarrow> (Web3Service \<times> (error + TransactionReceipt)) option" where
  "pollReceipt web3Instance toNumber getProvider service txId n =
     (case getTransactionReceipt web3Instance txId n of
        Inl e \<Rightarrow> Some (service, Inl e)
      | Inr None \<Rightarrow> pollReceipt web3Instance toNumber getProvider service txId (Suc n)
      | Inr (Some receipt) \<Rightarrow>
          Some (completeReceipt toNumber getProvider service txId receipt))"

declare pollReceipt.simps [code]

definition getReceipt ::
  "('a, 'd) Web3 \<Rightarrow> (string \<Rightarrow> int option) \<Rightarrow> (string \<Rightarrow> 'tx Provider) \<Rightarrow> Web3Service
     \<Rightarrow> string \<Rightarrow> (Web3Service \<times> (error + TransactionReceipt)) option" where
  "getReceipt web3Instance toNumber getProvider service txId =
     pollReceipt web3Instance toNumber getProvider service txId 0"

text \<open>The loop of \<^verbatim>\<open>transaction\<close>:
  \<^verbatim>\<open>while (true) { if (!resultHash) continue; ... return resultHash }\<close>.
  \<^verbatim>\<open>resultHash\<close> is assigned by the handler of the \<^verbatim>\<open>transactionHash\<close> event only,
  and an error of the stream reaches the handler of the \<^verbatim>\<open>error\<close> event only. A
  handler runs when the stream emits, which the runtime does between two pieces of
  synchronous code, never inside one. The loop has no \<^verbatim>\<open>await\<close>: it is one piece of
  synchronous code, so an iteration finds \<^verbatim>\<open>resultHash\<close> and the stream as the
  iteration before left them. \<^verbatim>\<open>!resultHash\<close> holds for \<^verbatim>\<open>undefined\<close> and for the
  empty string.\<close>

partial_function (option) awaitHash ::
  "send_event list \<Rightarrow> string option \<Rightarrow> Web3Service \<Rightarrow> (Web3Service \<times> (error + string)) option"
  where
  "awaitHash stream resultHash service =
     (case resultHash of
        None \<Rightarrow> awaitHash stream resultHash service
      | Some hash \<Rightarrow>
          if hash = [] then awaitHash stream resultHash service
          else Some (service\<lparr>pendingTransactions := pendingTransactions service @ [hash]\<rparr>,
                     Inr hash))"

declare awaitHash.simps [code]

text \<open>\<^verbatim>\<open>transaction\<close>. Encoding is outside the \<^verbatim>\<open>try\<close>, the rest inside a
  \<^verbatim>\<open>catch\<close> that throws again what it caught. When \<^verbatim>\<open>sendTransaction\<close> has returned
  its stream, the two handlers are registered and the loop starts with \<^verbatim>\<open>resultHash\<close>
  still \<^verbatim>\<open>undefined\<close>. \<open>sender\<close> is the parameter \<^verbatim>\<open>from\<close> of the source.\<close>

definition transaction ::
  "('a, 'd) Web3 \<Rightarrow> Web3Service \<Rightarrow> string \<Rightarrow> ContractMethod \<Rightarrow> 'a list
     \<Rightarrow> (Web3Service \<times> (error + string)) option" where
  "transaction web3Instance service sender m args =
     (let resultHash = (None :: string option) in
      case encodeMethod web3Instance m args of
        Inl e \<Rightarrow> Some (service, Inl e)
      | Inr dat \<Rightarrow>
          (let tx = \<lparr>txFrom = sender, txTo = address m, txData = dat\<rparr> in
           case estimateGas web3Instance tx of
             Inl e \<Rightarrow> Some (service, Inl e)
           | Inr gas \<Rightarrow>
               (case sendTransaction web3Instance tx gas of
                  Inl e \<Rightarrow> Some (service, Inl e)
                | Inr stream \<Rightarrow> awaitHash stream resultHash service)))"

section \<open>Notions of the specification\<close>

text \<open>A well-formed transaction hash in the words of the specification: \<^verbatim>\<open>0x\<close> followed
  by exactly 64 hexadecimal characters.\<close>

definition hexadecimalCharacter :: "char \<Rightarrow> bool" where
  "hexadecimalCharacter c = (c \<in> set ''0123456789abcdefABCDEF'')"

definition wellFormedHash :: "string \<Rightarrow> bool" where
  "wellFormedHash s =
     (take 2 s = ''0x'' \<and> length (drop 2 s) = 64 \<and> list_all hexadecimalCharacter (drop 2 s))"

text \<open>The hexadecimal string that \<^verbatim>\<open>decodeMessage\<close> has in \<^verbatim>\<open>codeString\<close> after
  stripping the header, before the padding of an odd length.\<close>

definition strippedCodeString :: "string \<Rightarrow> string \<Rightarrow> string" where
  "strippedCodeString code network =
     (if network = ''kovan'' then kovanCodeString code else plainCodeString code)"

section \<open>Sample surroundings\<close>

text \<open>Concrete libraries and providers, for the examples below. \<open>numberOfDigits\<close> is
  \<^verbatim>\<open>Number\<close> on the strings of decimal digits, the only block numbers of the examples.\<close>

definition numberOfDigits :: "string \<Rightarrow> int option" where
  "numberOfDigits s =
     (if s \<noteq> [] \<and> list_all (\<lambda>c. 48 \<le> (of_char c :: nat) \<and> (of_char c :: nat) \<le> 57) s
      then Some (foldl (\<lambda>acc c. 10 * acc + (of_char c - 48)) 0 s)
      else None)"

definition sampleHash :: string where
  "sampleHash = ''0x5c504ed432cb51138bcf09aa5e8a410dd4a1e204ef84bfed1be16dfba1b22060''"

text \<open>A node at height 1000 that keeps the state of the last 128 blocks only, and that
  reports a revert in the way of Parity: as an error, with the payload after the nine
  characters \<^verbatim>\<open>Reverted \<close>.\<close>

definition prunedProvider :: "string Provider" where
  "prunedProvider =
     \<lparr>getTransaction = (\<lambda>h. Inr ''tx''),
      providerCall = (\<lambda>tx b. Inl (RpcError (Some (- 32015)) (Some (''Reverted '' @
        ''0x08c379a00000000000000000000000000000000000000000000000000000000000000020000000000000000000000000000000000000000000000000000000000000000568656c6c6f000000000000000000000000000000000000000000000000000000'')))),
      getBlockNumber = Inr 1000,
      getBalance = (\<lambda>a n. if n < 1000 - 128 then Inl (RpcError (Some (- 32002)) None)
                           else Inr 0)\<rparr>"


text \<open>An archive node that answers a replay with the revert payload of \<^verbatim>\<open>hello\<close>.\<close>

definition archiveProvider :: "string Provider" where
  "archiveProvider =
     \<lparr>getTransaction = (\<lambda>h. Inr ''tx''),
      providerCall = (\<lambda>tx b. Inr
        ''0x08c379a00000000000000000000000000000000000000000000000000000000000000020000000000000000000000000000000000000000000000000000000000000000568656c6c6f000000000000000000000000000000000000000000000000000000''),
      getBlockNumber = Inr 1000,
      getBalance = (\<lambda>a n. Inr 0)\<rparr>"

text \<open>A web3 instance whose decoder returns the schema and the bytes it was given, whose
  receipt arrives with the third query, and whose send stream emits an error.\<close>

definition sampleWeb3 :: "(nat, (string \<times> string) list \<times> string) Web3" where
  "sampleWeb3 =
     \<lparr>encodeFunctionSignature = (\<lambda>s. Inr ''0x2e52d606''),
      encodeFunctionCall = (\<lambda>item args. Inr
        ''0x4a7dd5230000000000000000000000000000000000000000000000000000000000000005''),
      decodeParameters = (\<lambda>schema output. Inr (schema, output)),
      ethCall = (\<lambda>to dat. Inr
        ''0x000000000000000000000000000000000000000000000000000000000000002a''),
      estimateGas = (\<lambda>tx. Inr 21000),
      sendTransaction = (\<lambda>tx gas. Inr [SendError (TransportError OpaqueError)]),
      getTransactionReceipt = (\<lambda>h n. if n < 2 then Inr None
                                      else Inr (Some \<lparr>status = True, transactionHash = h\<rparr>))\<rparr>"

definition getCalls :: ContractMethod where
  "getCalls = \<lparr>name = ''getCalls'', signature = ''getCalls()'',
               address = ''0x00000'', abi = simple_abi, methodAbi = None\<rparr>"

definition testNumber :: ContractMethod where
  "testNumber = \<lparr>name = ''testNumber'', signature = ''testNumber(uint256)'',
                 address = ''0x00000'', abi = simple_abi, methodAbi = None\<rparr>"



definition archiveNodes :: "string \<Rightarrow> string Provider" where
  "archiveNodes network = archiveProvider"

text \<open>The same web3 instance when the contract returns no data, and when the receipt
  reports a failed transaction.\<close>

definition silentWeb3 :: "(nat, (string \<times> string) list \<times> string) Web3" where
  "silentWeb3 = sampleWeb3\<lparr>ethCall := (\<lambda>to dat. Inr ''0x'')\<rparr>"

definition revertedWeb3 :: "(nat, (string \<times> string) list \<times> string) Web3" where
  "revertedWeb3 =
     sampleWeb3\<lparr>getTransactionReceipt :=
                  (\<lambda>h n. Inr (Some \<lparr>status = False, transactionHash = h\<rparr>))\<rparr>"

text \<open>A method whose name is not in its ABI, and one whose ABI entry has no
  \<^verbatim>\<open>outputs\<close> field.\<close>

definition missingMethod :: ContractMethod where
  "missingMethod = \<lparr>name = ''missing'', signature = ''missing()'',
                    address = ''0x00000'', abi = simple_abi, methodAbi = None\<rparr>"

definition bareMethod :: ContractMethod where
  "bareMethod = \<lparr>name = ''ping'', signature = ''ping()'', address = ''0x00000'',
                 abi = [\<lparr>inputs = None, itemName = Some ''ping'', outputs = None,
                         stateMutability = None, itemType = ''function''\<rparr>],
                 methodAbi = None\<rparr>"

section \<open>Properties of the decoder\<close>

lemma encodeErrorString_hello:
  "encodeErrorString ''hello'' =
     ''0x08c379a00000000000000000000000000000000000000000000000000000000000000020000000000000000000000000000000000000000000000000000000000000000568656c6c6f000000000000000000000000000000000000000000000000000000''"
  by code_simp

lemma plainCodeString_hello:
  "plainCodeString ''0x08c379a00000000000000000000000000000000000000000000000000000000000000020000000000000000000000000000000000000000000000000000000000000000568656c6c6f000000000000000000000000000000000000000000000000000000'' = ''0x68656c6c6f''"
  by (simp add: plainCodeString_def stripTrailingZeros_def)

lemma toUtf8String_hello: "toUtf8String ''0x68656c6c6f'' = Inr (ascii ''hello'')"
  by (simp add: toUtf8String_def arrayify_def hexDigit_def hexValue_def ascii_def)

text \<open>Claim C1. On every network other than kovan, \<^verbatim>\<open>decodeMessage\<close> applied to the
  standard encoding of the revert reason \<^verbatim>\<open>hello\<close> (selector, offset, length, the bytes
  of the string, zero bytes up to 32) returns exactly the string \<^verbatim>\<open>hello\<close>.\<close>

theorem decodeMessage_hello:
  "network \<noteq> ''kovan'' \<Longrightarrow>
   decodeMessage (encodeErrorString ''hello'') network = Inr (ascii ''hello'')"
  by (simp add: decodeMessage_def encodeErrorString_hello plainCodeString_hello padOdd_def
      toUtf8String_hello)

theorem decodeMessage_hello_witness:
  "''mainnet'' \<noteq> ''kovan'' \<and>
   decodeMessage ''0x08c379a00000000000000000000000000000000000000000000000000000000000000020000000000000000000000000000000000000000000000000000000000000000568656c6c6f000000000000000000000000000000000000000000000000000000'' ''mainnet'' = Inr [104, 101, 108, 108, 111]"
  using decodeMessage_hello [of "''mainnet''"]
  by (simp add: encodeErrorString_hello ascii_def)

lemma toUtf8String_even:
  "even (length s) \<Longrightarrow> toUtf8String s \<noteq> Inl (CodecError ''hex data is odd-length'')"
  by (auto simp: toUtf8String_def arrayify_def split: sum.splits option.splits if_splits)

text \<open>Claim C5, as it is written: whenever the code string left after stripping the
  header has an odd length, the decoder does not raise. That fails: the payload below is
  the standard encoding of the one-byte string \<open>0x80\<close>; stripping leaves \<^verbatim>\<open>0x8\<close>, the
  padding makes it \<^verbatim>\<open>0x80\<close>, and the library rejects the byte, which is not UTF-8.\<close>

theorem decodeMessage_odd_raises:
  "odd (length (strippedCodeString ''0x08c379a0000000000000000000000000000000000000000000000000000000000000002000000000000000000000000000000000000000000000000000000000000000018000000000000000000000000000000000000000000000000000000000000000'' ''mainnet''))
   \<and> decodeMessage ''0x08c379a0000000000000000000000000000000000000000000000000000000000000002000000000000000000000000000000000000000000000000000000000000000018000000000000000000000000000000000000000000000000000000000000000'' ''mainnet''
       = Inl (CodecError ''invalid codepoint'')"
  by (simp add: strippedCodeString_def decodeMessage_def plainCodeString_def
      stripTrailingZeros_def padOdd_def toUtf8String_def arrayify_def hexDigit_def
      hexValue_def continuation_def)

text \<open>Claim C5, amended. Whenever the code string left after stripping the header has
  an odd length, the decoder appends exactly one \<^verbatim>\<open>0\<close> and hands the result, now of
  even length, to the UTF-8 decoding, whose outcome is the outcome of the decoder: the
  odd length itself never makes it raise.\<close>

theorem decodeMessage_odd_padded:
  "odd (length (strippedCodeString code network)) \<Longrightarrow>
     decodeMessage code network = toUtf8String (strippedCodeString code network @ ''0'')
   \<and> even (length (strippedCodeString code network @ ''0''))
   \<and> decodeMessage code network \<noteq> Inl (CodecError ''hex data is odd-length'')"
  using toUtf8String_even [of "strippedCodeString code network @ ''0''"]
  by (auto simp: decodeMessage_def strippedCodeString_def padOdd_def odd_iff_mod_2_eq_one)

theorem decodeMessage_odd_padded_witness:
  "odd (length (strippedCodeString ''0x08c379a00000000000000000000000000000000000000000000000000000000000000020000000000000000000000000000000000000000000000000000000000000000468656c7000000000000000000000000000000000000000000000000000000000'' ''mainnet''))
   \<and> strippedCodeString ''0x08c379a00000000000000000000000000000000000000000000000000000000000000020000000000000000000000000000000000000000000000000000000000000000468656c7000000000000000000000000000000000000000000000000000000000'' ''mainnet'' = ''0x68656c7''
   \<and> decodeMessage ''0x08c379a00000000000000000000000000000000000000000000000000000000000000020000000000000000000000000000000000000000000000000000000000000000468656c7000000000000000000000000000000000000000000000000000000000'' ''mainnet'' = Inr (ascii ''help'')"
proof -
  have s: "strippedCodeString ''0x08c379a00000000000000000000000000000000000000000000000000000000000000020000000000000000000000000000000000000000000000000000000000000000468656c7000000000000000000000000000000000000000000000000000000000'' ''mainnet'' = ''0x68656c7''"
    by (simp add: strippedCodeString_def plainCodeString_def stripTrailingZeros_def)
  have d: "toUtf8String ''0x68656c70'' = Inr (ascii ''help'')"
    by (simp add: toUtf8String_def arrayify_def hexDigit_def hexValue_def ascii_def)
  show ?thesis
    using decodeMessage_odd_padded [of "''0x08c379a00000000000000000000000000000000000000000000000000000000000000020000000000000000000000000000000000000000000000000000000000000000468656c7000000000000000000000000000000000000000000000000000000000''" "''mainnet''"]
    by (simp add: s d)
qed


section \<open>Properties of the validation before the provider\<close>

lemma char_eq_code: "(c = d) = ((of_char c :: nat) = of_char d)"
  by simp

lemma hexadecimalCharacter_code:
  "hexadecimalCharacter c =
     ((48 \<le> (of_char c :: nat) \<and> (of_char c :: nat) \<le> 57)
      \<or> (65 \<le> (of_char c :: nat) \<and> (of_char c :: nat) \<le> 70)
      \<or> (97 \<le> (of_char c :: nat) \<and> (of_char c :: nat) \<le> 102))"
proof -
  have "hexadecimalCharacter c =
      ((of_char c :: nat) \<in> {48, 49, 50, 51, 52, 53, 54, 55, 56, 57,
          97, 98, 99, 100, 101, 102, 65, 66, 67, 68, 69, 70})"
    unfolding hexadecimalCharacter_def
    by (simp add: char_eq_code [of c])
  also have "\<dots> = ((48 \<le> (of_char c :: nat) \<and> (of_char c :: nat) \<le> 57)
      \<or> (65 \<le> (of_char c :: nat) \<and> (of_char c :: nat) \<le> 70)
      \<or> (97 \<le> (of_char c :: nat) \<and> (of_char c :: nat) \<le> 102))"
    by (simp only: insert_iff empty_iff) arith
  finally show ?thesis .
qed

lemma hexDigit_iff: "hexDigit c = hexadecimalCharacter c"
  unfolding hexadecimalCharacter_code by (auto simp: hexDigit_def Let_def)

lemma txHashPattern_iff: "txHashPattern s = wellFormedHash s"
proof (cases s)
  case Nil
  then show ?thesis by (simp add: txHashPattern_def wellFormedHash_def)
next
  case (Cons a t)
  then show ?thesis
    by (cases t) (auto simp: txHashPattern_def wellFormedHash_def hexDigit_iff list_all_iff)
qed

lemma wellFormedHash_prefix: "wellFormedHash s \<Longrightarrow> take 2 s = ''0x''"
  by (simp add: wellFormedHash_def)

text \<open>Claim C2. The validation before the provider accepts the transaction hash of every
  string that is \<^verbatim>\<open>0x\<close> followed by exactly 64 hexadecimal characters (and, the network
  being one of the five, succeeds); for every other string it fails with the invalid
  input error \<^verbatim>\<open>"Invalid transaction hash"\<close>, whatever the network.\<close>

theorem validateInputPreProvider_hash:
  "(wellFormedHash txHash \<longrightarrow>
      validateInputPreProvider txHash network
        \<noteq> Inl (InvalidInputError ''Invalid transaction hash'')
      \<and> (network \<in> set networks \<longrightarrow> validateInputPreProvider txHash network = Inr ()))
   \<and> (\<not> wellFormedHash txHash \<longrightarrow>
      validateInputPreProvider txHash network
        = Inl (InvalidInputError ''Invalid transaction hash''))"
  by (auto simp: validateInputPreProvider_def txHashPattern_iff wellFormedHash_prefix)

theorem validateInputPreProvider_hash_witness:
  "wellFormedHash sampleHash \<and> ''ropsten'' \<in> set networks
   \<and> validateInputPreProvider sampleHash ''ropsten'' = Inr ()
   \<and> \<not> wellFormedHash (take 65 sampleHash)
   \<and> validateInputPreProvider (take 65 sampleHash) ''ropsten''
       = Inl (InvalidInputError ''Invalid transaction hash'')
   \<and> \<not> wellFormedHash (drop 2 sampleHash)
   \<and> validateInputPreProvider (drop 2 sampleHash) ''ropsten''
       = Inl (InvalidInputError ''Invalid transaction hash'')
   \<and> \<not> wellFormedHash (sampleHash [7 := CHR ''g''])
   \<and> validateInputPreProvider (sampleHash [7 := CHR ''g'']) ''ropsten''
       = Inl (InvalidInputError ''Invalid transaction hash'')"
proof -
  have w: "wellFormedHash sampleHash"
    by (simp add: wellFormedHash_def sampleHash_def hexadecimalCharacter_def)
  have n: "''ropsten'' \<in> set networks" by (simp add: networks_def)
  have s: "\<not> wellFormedHash (take 65 sampleHash)"
    by (simp add: wellFormedHash_def sampleHash_def)
  have p: "\<not> wellFormedHash (drop 2 sampleHash)"
    by (simp add: wellFormedHash_def sampleHash_def)
  have g: "\<not> wellFormedHash (sampleHash [7 := CHR ''g''])"
    by (simp add: wellFormedHash_def sampleHash_def hexadecimalCharacter_def)
  show ?thesis
    using w n s p g
      validateInputPreProvider_hash [of sampleHash "''ropsten''"]
      validateInputPreProvider_hash [of "take 65 sampleHash" "''ropsten''"]
      validateInputPreProvider_hash [of "drop 2 sampleHash" "''ropsten''"]
      validateInputPreProvider_hash [of "sampleHash [7 := CHR ''g'']" "''ropsten''"]
    by blast
qed

section \<open>Properties of the validation after the provider\<close>



lemma toLowerCase_ropsten: "toLowerCase ''ropsten'' = ''ropsten''"
  by (simp add: toLowerCase_def lowerChar_def)

lemma sampleHash_valid:
  "network \<in> set networks \<Longrightarrow> validateInputPreProvider sampleHash network = Inr ()"
  by (simp add: validateInputPreProvider_def txHashPattern_def sampleHash_def hexDigit_def)

lemma numberOfDigits_samples:
  "numberOfDigits ''1000'' = Some 1000" "numberOfDigits ''999'' = Some 999"
  "numberOfDigits ''950'' = Some 950" "numberOfDigits ''800'' = Some 800"
  by (simp_all add: numberOfDigits_def)

lemma validateBlockNumber_cases:
  assumes "blockNumber \<noteq> ''latest''" "getBlockNumber provider = Inr current"
    "toNumber blockNumber = Some n"
  shows "validateBlockNumber toNumber blockNumber provider =
     (if n \<ge> current then ([FetchBlockNumber], Inl FutureBlockError)
      else if n < current - 128 then
        (FetchBlockNumber # fst (checkArchive n provider), snd (checkArchive n provider))
      else ([FetchBlockNumber], Inr ()))"
  using assms by (simp add: validateBlockNumber_def)



lemma kovanProbe_error:
  "snd (kovanProbe txHash network blockNumber provider) = Inl e
   \<Longrightarrow> e = UnsupportedProviderError"
  by (auto simp: kovanProbe_def split: if_splits sum.splits)

lemma kovanProbe_no_balance:
  "FetchBalance a n \<notin> set (fst (kovanProbe txHash network blockNumber provider))"
  by (auto simp: kovanProbe_def getCode_def split: if_splits sum.splits)

lemma validateBlockNumber_archive:
  assumes "snd (validateBlockNumber toNumber blockNumber provider) = Inl ArchiveRequiredError"
  shows "\<exists>current n. getBlockNumber provider = Inr current \<and> toNumber blockNumber = Some n
           \<and> n < current - 128"
  using assms
  by (auto simp: validateBlockNumber_def split: if_splits sum.splits option.splits)

lemma validateBlockNumber_balance:
  assumes "FetchBalance a n \<in> set (fst (validateBlockNumber toNumber blockNumber provider))"
  shows "a = AddressZero
    \<and> snd (validateBlockNumber toNumber blockNumber provider) = snd (checkArchive n provider)"
  using assms
  by (auto simp: validateBlockNumber_def checkArchive_def
      split: if_splits sum.splits option.splits)

lemma validateInputPostProvider_snd:
  "snd (validateInputPostProvider toNumber txHash network blockNumber provider) =
     (case snd (kovanProbe txHash network blockNumber provider) of
        Inl e \<Rightarrow> Inl e
      | Inr u \<Rightarrow> snd (validateBlockNumber toNumber blockNumber provider))"
  by (simp add: validateInputPostProvider_def split: prod.splits sum.splits)

lemma validateInputPostProvider_fst:
  "fst (validateInputPostProvider toNumber txHash network blockNumber provider) =
     (case snd (kovanProbe txHash network blockNumber provider) of
        Inl e \<Rightarrow> fst (kovanProbe txHash network blockNumber provider)
      | Inr u \<Rightarrow> fst (kovanProbe txHash network blockNumber provider)
                 @ fst (validateBlockNumber toNumber blockNumber provider))"
  by (simp add: validateInputPostProvider_def split: prod.splits sum.splits)




text \<open>Claim C4. If the requested block is at most 128 blocks behind the current height,
  the validation after the provider never fails with the archive required error. If it
  is more than 128 blocks behind, the validation sends the canary balance query at that
  block (on kovan after it has fetched the transaction for its trial replay); and
  whenever the canary query fails with the provider error code -32002, the validation
  fails with the archive required error.\<close>

theorem validateInputPostProvider_archive:
  "(getBlockNumber provider = Inr current \<and> toNumber blockNumber = Some n
      \<and> current - n \<le> 128 \<longrightarrow>
      snd (validateInputPostProvider toNumber txHash network blockNumber provider)
        \<noteq> Inl ArchiveRequiredError)
   \<and> (blockNumber \<noteq> ''latest'' \<and> getBlockNumber provider = Inr current
      \<and> toNumber blockNumber = Some n \<and> 128 < current - n
      \<and> (network = ''kovan'' \<longrightarrow> (\<exists>tx. getTransaction provider txHash = Inr tx)) \<longrightarrow>
      FetchBalance AddressZero n
        \<in> set (fst (validateInputPostProvider toNumber txHash network blockNumber provider)))
   \<and> (FetchBalance a n
        \<in> set (fst (validateInputPostProvider toNumber txHash network blockNumber provider))
      \<and> getBalance provider a n = Inl (RpcError (Some (- 32002)) d) \<longrightarrow>
      snd (validateInputPostProvider toNumber txHash network blockNumber provider)
        = Inl ArchiveRequiredError)"
proof (intro conjI impI)
  assume a: "getBlockNumber provider = Inr current \<and> toNumber blockNumber = Some n
      \<and> current - n \<le> 128"
  show "snd (validateInputPostProvider toNumber txHash network blockNumber provider)
        \<noteq> Inl ArchiveRequiredError"
  proof
    assume "snd (validateInputPostProvider toNumber txHash network blockNumber provider)
        = Inl ArchiveRequiredError"
    then have
      "snd (validateBlockNumber toNumber blockNumber provider) = Inl ArchiveRequiredError"
      by (auto simp: validateInputPostProvider_snd split: sum.splits dest: kovanProbe_error)
    from validateBlockNumber_archive [OF this] a show False by auto
  qed
next
  assume a: "blockNumber \<noteq> ''latest'' \<and> getBlockNumber provider = Inr current
      \<and> toNumber blockNumber = Some n \<and> 128 < current - n
      \<and> (network = ''kovan'' \<longrightarrow> (\<exists>tx. getTransaction provider txHash = Inr tx))"
  then have "snd (kovanProbe txHash network blockNumber provider) = Inr ()"
    by (auto simp: kovanProbe_def)
  moreover have
    "FetchBalance AddressZero n \<in> set (fst (validateBlockNumber toNumber blockNumber provider))"
    using a by (simp add: validateBlockNumber_cases checkArchive_def)
  ultimately show "FetchBalance AddressZero n
        \<in> set (fst (validateInputPostProvider toNumber txHash network blockNumber provider))"
    by (simp add: validateInputPostProvider_fst)
next
  assume a: "FetchBalance a n
        \<in> set (fst (validateInputPostProvider toNumber txHash network blockNumber provider))
      \<and> getBalance provider a n = Inl (RpcError (Some (- 32002)) d)"
  then obtain u where k: "snd (kovanProbe txHash network blockNumber provider) = Inr u"
    and v: "FetchBalance a n \<in> set (fst (validateBlockNumber toNumber blockNumber provider))"
    using kovanProbe_no_balance [of a n txHash network blockNumber provider]
    by (auto simp: validateInputPostProvider_fst split: sum.splits)
  from validateBlockNumber_balance [OF v] a
  have "snd (validateBlockNumber toNumber blockNumber provider) = Inl ArchiveRequiredError"
    by (simp add: checkArchive_def)
  with k show "snd (validateInputPostProvider toNumber txHash network blockNumber provider)
        = Inl ArchiveRequiredError"
    by (simp add: validateInputPostProvider_snd)
qed

theorem validateInputPostProvider_archive_witness:
  "getBlockNumber prunedProvider = Inr 1000
   \<and> numberOfDigits ''950'' = Some 950 \<and> (1000 :: int) - 950 \<le> 128
   \<and> snd (validateInputPostProvider numberOfDigits sampleHash ''kovan'' ''950'' prunedProvider)
       \<noteq> Inl ArchiveRequiredError
   \<and> numberOfDigits ''800'' = Some 800 \<and> 128 < (1000 :: int) - 800
   \<and> getTransaction prunedProvider sampleHash = Inr ''tx''
   \<and> FetchBalance AddressZero 800
       \<in> set (fst (validateInputPostProvider numberOfDigits sampleHash ''kovan'' ''800''
                     prunedProvider))
   \<and> getBalance prunedProvider AddressZero 800 = Inl (RpcError (Some (- 32002)) None)
   \<and> snd (validateInputPostProvider numberOfDigits sampleHash ''kovan'' ''800'' prunedProvider)
       = Inl ArchiveRequiredError"
proof -
  have b: "getBlockNumber prunedProvider = Inr 1000"
    and t: "getTransaction prunedProvider sampleHash = Inr ''tx''"
    and c: "getBalance prunedProvider AddressZero 800 = Inl (RpcError (Some (- 32002)) None)"
    by (simp_all add: prunedProvider_def)
  note near = validateInputPostProvider_archive
    [where provider = prunedProvider and current = 1000 and toNumber = numberOfDigits
       and blockNumber = "''950''" and n = 950 and txHash = sampleHash
       and network = "''kovan''"]
  note far = validateInputPostProvider_archive
    [where provider = prunedProvider and current = 1000 and toNumber = numberOfDigits
       and blockNumber = "''800''" and n = 800 and txHash = sampleHash
       and network = "''kovan''" and a = AddressZero and d = None]
  have "snd (validateInputPostProvider numberOfDigits sampleHash ''kovan'' ''950''
              prunedProvider) \<noteq> Inl ArchiveRequiredError"
    using near b numberOfDigits_samples(3) by simp
  moreover have s: "FetchBalance AddressZero 800
       \<in> set (fst (validateInputPostProvider numberOfDigits sampleHash ''kovan'' ''800''
                     prunedProvider))"
    using far b t numberOfDigits_samples(4) by simp
  moreover have "snd (validateInputPostProvider numberOfDigits sampleHash ''kovan'' ''800''
              prunedProvider) = Inl ArchiveRequiredError"
    using far s c by blast
  ultimately show ?thesis
    using b t c numberOfDigits_samples(3,4) by simp
qed

section \<open>Properties of the executor\<close>

lemma findInABI_Inr:
  "findInABI n items = Inr item \<Longrightarrow> item \<in> set items \<and> itemName item = Some n"
  by (auto simp: findInABI_def find_Some_iff split: option.splits)

lemma findInABI_Inl:
  "findInABI n items = Inl e
   \<Longrightarrow> e = NotFoundError \<and> (\<forall>item \<in> set items. itemName item \<noteq> Some n)"
  by (auto simp: findInABI_def find_None_iff split: option.splits)

lemma findInABI_simple:
  "findInABI ''getCalls'' simple_abi = Inr (simple_abi ! 0)"
  "findInABI ''testNumber'' simple_abi = Inr (simple_abi ! 1)"
  "findInABI ''missing'' simple_abi = Inl NotFoundError"
  by (simp_all add: findInABI_def simple_abi_def)

text \<open>Claim C6, as it is written: when the raw return is not \<^verbatim>\<open>0x\<close>, \<^verbatim>\<open>call\<close> fails
  with the schema error if the resolved ABI entry declares no outputs. That fails for an
  entry that declares the empty list of outputs, as \<^verbatim>\<open>testNumber\<close> does in the ABI of
  the repository: the empty list is not absent, so the raw return goes to the decoder
  with the empty schema, and here the decoder returns.\<close>

theorem call_empty_outputs_decodes:
  "map_sum id outputs (findInABI (name testNumber) (abi testNumber)) = Inr (Some [])
   \<and> call sampleWeb3 testNumber [5]
       = Inr (Some ([],
           ''0x000000000000000000000000000000000000000000000000000000000000002a''))"
  by (simp add: call_def encodeMethod_def decodeOutput_def testNumber_def findInABI_simple
      sampleWeb3_def)
    (simp add: simple_abi_def)

text \<open>Claim C6, amended. Let the call data be encoded and the provider return. If the
  raw return is \<^verbatim>\<open>0x\<close>, \<^verbatim>\<open>call\<close> returns null, whatever the ABI and the decoder are:
  nothing is decoded. Otherwise, the ABI entry being resolved: if the entry has no
  \<^verbatim>\<open>outputs\<close> field, \<^verbatim>\<open>call\<close> fails with the schema error; if it has one, also an empty
  one, the result is that of decoding the raw return against the names and types of
  those outputs.\<close>

theorem call_null_or_decoded:
  "encodeMethod web3Instance m args = Inr dat
     \<and> ethCall web3Instance (address m) dat = Inr result \<longrightarrow>
     (result = ''0x'' \<longrightarrow> call web3Instance m args = Inr None)
     \<and> (result \<noteq> ''0x'' \<longrightarrow>
        (\<forall>abiItem. findInABI (name m) (abi m) = Inr abiItem \<longrightarrow>
           (outputs abiItem = None \<longrightarrow> call web3Instance m args = Inl SchemaError)
           \<and> (\<forall>outs. outputs abiItem = Some outs \<longrightarrow>
                call web3Instance m args =
                  map_sum id Some (decodeParameters web3Instance
                     (map (\<lambda>out. (paramName out, paramType out)) outs) result))))"
  by (auto simp: call_def decodeOutput_def split: sum.splits)

theorem call_null_or_decoded_witness:
  "encodeMethod silentWeb3 missingMethod [] = Inr ''0x2e52d606''
   \<and> ethCall silentWeb3 (address missingMethod) ''0x2e52d606'' = Inr ''0x''
   \<and> call silentWeb3 missingMethod [] = Inr None
   \<and> encodeMethod sampleWeb3 bareMethod [] = Inr ''0x2e52d606''
   \<and> ethCall sampleWeb3 (address bareMethod) ''0x2e52d606''
       = Inr ''0x000000000000000000000000000000000000000000000000000000000000002a''
   \<and> call sampleWeb3 bareMethod [] = Inl SchemaError
   \<and> call sampleWeb3 getCalls []
       = Inr (Some ([([], ''uint256'')],
           ''0x000000000000000000000000000000000000000000000000000000000000002a''))"
proof -
  have e1: "encodeMethod silentWeb3 missingMethod [] = Inr ''0x2e52d606''"
    and c1: "ethCall silentWeb3 (address missingMethod) ''0x2e52d606'' = Inr ''0x''"
    by (simp_all add: encodeMethod_def silentWeb3_def sampleWeb3_def)
  have e2: "encodeMethod sampleWeb3 bareMethod [] = Inr ''0x2e52d606''"
    and c2: "ethCall sampleWeb3 (address bareMethod) ''0x2e52d606''
       = Inr ''0x000000000000000000000000000000000000000000000000000000000000002a''"
    and f2: "findInABI (name bareMethod) (abi bareMethod) = Inr (hd (abi bareMethod))"
    and o2: "outputs (hd (abi bareMethod)) = None"
    by (simp_all add: encodeMethod_def sampleWeb3_def bareMethod_def findInABI_def)
  have f3: "findInABI (name getCalls) (abi getCalls) = Inr (simple_abi ! 0)"
    by (simp add: getCalls_def findInABI_simple)
  have e3: "encodeMethod sampleWeb3 getCalls [] = Inr ''0x2e52d606''"
    and c3: "ethCall sampleWeb3 (address getCalls) ''0x2e52d606''
       = Inr ''0x000000000000000000000000000000000000000000000000000000000000002a''"
    and o3: "outputs (simple_abi ! 0)
       = Some [\<lparr>internalType = Some ''uint256'', paramName = [], paramType = ''uint256''\<rparr>]"
    and d3: "decodeParameters sampleWeb3 [([], ''uint256'')]
          ''0x000000000000000000000000000000000000000000000000000000000000002a''
       = Inr ([([], ''uint256'')],
           ''0x000000000000000000000000000000000000000000000000000000000000002a'')"
    by (simp_all add: encodeMethod_def sampleWeb3_def getCalls_def simple_abi_def)
  have "call silentWeb3 missingMethod [] = Inr None"
    using call_null_or_decoded [of silentWeb3 missingMethod "[]" "''0x2e52d606''" "''0x''"]
      e1 c1 by simp
  moreover have "call sampleWeb3 bareMethod [] = Inl SchemaError"
    using call_null_or_decoded [of sampleWeb3 bareMethod "[]" "''0x2e52d606''"
        "''0x000000000000000000000000000000000000000000000000000000000000002a''"]
      e2 c2 f2 o2 by simp
  moreover have "call sampleWeb3 getCalls []
       = Inr (Some ([([], ''uint256'')],
           ''0x000000000000000000000000000000000000000000000000000000000000002a''))"
    using call_null_or_decoded [of sampleWeb3 getCalls "[]" "''0x2e52d606''"
        "''0x000000000000000000000000000000000000000000000000000000000000002a''"]
      e3 c3 f3 o3 d3 by simp
  ultimately show ?thesis using e1 c1 e2 c2 by simp
qed

text \<open>Claim C7. With an empty argument list \<^verbatim>\<open>encodeMethod\<close> returns what the library
  makes of the signature of the method, the function selector, and nothing else: the
  name and the ABI of the method play no part, so no entry is resolved. With a non-empty
  argument list the entry is resolved by name: it is an entry of the ABI of that name and
  the result is the library's encoding of the call from that entry and the arguments;
  when the ABI has no entry of that name, the encoding fails with the not found error.\<close>

theorem encodeMethod_selector_or_call:
  "(args = [] \<longrightarrow>
      encodeMethod web3Instance m args = encodeFunctionSignature web3Instance (signature m)
      \<and> encodeMethod web3Instance (m\<lparr>name := otherName, abi := otherAbi\<rparr>) args
          = encodeMethod web3Instance m args)
   \<and> (args \<noteq> [] \<longrightarrow>
      (\<forall>abiItem. findInABI (name m) (abi m) = Inr abiItem \<longrightarrow>
         abiItem \<in> set (abi m) \<and> itemName abiItem = Some (name m)
         \<and> encodeMethod web3Instance m args = encodeFunctionCall web3Instance abiItem args)
      \<and> ((\<forall>abiItem \<in> set (abi m). itemName abiItem \<noteq> Some (name m)) \<longrightarrow>
         encodeMethod web3Instance m args = Inl NotFoundError))"
  by (auto simp: encodeMethod_def dest: findInABI_Inr findInABI_Inl split: sum.splits)

theorem encodeMethod_selector_or_call_witness:
  "encodeMethod sampleWeb3 missingMethod ([] :: nat list) = Inr ''0x2e52d606''
   \<and> findInABI (name testNumber) (abi testNumber) = Inr (simple_abi ! 1)
   \<and> encodeMethod sampleWeb3 testNumber [5]
       = Inr ''0x4a7dd5230000000000000000000000000000000000000000000000000000000000000005''
   \<and> findInABI (name missingMethod) (abi missingMethod) = Inl NotFoundError
   \<and> encodeMethod sampleWeb3 missingMethod [5] = Inl NotFoundError"
proof -
  have f: "findInABI (name testNumber) (abi testNumber) = Inr (simple_abi ! 1)"
    by (simp add: testNumber_def findInABI_simple)
  have s: "encodeFunctionSignature sampleWeb3 (signature missingMethod) = Inr ''0x2e52d606''"
    and c: "encodeFunctionCall sampleWeb3 (simple_abi ! 1) [5]
       = Inr ''0x4a7dd5230000000000000000000000000000000000000000000000000000000000000005''"
    and n: "\<forall>abiItem \<in> set (abi missingMethod). itemName abiItem \<noteq> Some (name missingMethod)"
    by (simp_all add: sampleWeb3_def missingMethod_def simple_abi_def)
  have "encodeMethod sampleWeb3 missingMethod ([] :: nat list) = Inr ''0x2e52d606''"
    using encodeMethod_selector_or_call [of "[]" sampleWeb3 missingMethod] s by simp
  moreover have "encodeMethod sampleWeb3 testNumber [5]
       = Inr ''0x4a7dd5230000000000000000000000000000000000000000000000000000000000000005''"
    using encodeMethod_selector_or_call [of "[5]" sampleWeb3 testNumber] f c by simp
  moreover have "encodeMethod sampleWeb3 missingMethod [5] = Inl NotFoundError"
    using encodeMethod_selector_or_call [of "[5]" sampleWeb3 missingMethod] n by simp
  moreover have "findInABI (name missingMethod) (abi missingMethod) = Inl NotFoundError"
    by (simp add: missingMethod_def findInABI_simple)
  ultimately show ?thesis using f by simp
qed

section \<open>Properties of the client\<close>

lemma completeReceipt_pending:
  assumes "completeReceipt toNumber getProvider service txId receipt = (service', Inr r)"
  shows "pendingTransactions service'
    = filter (\<lambda>tx. tx \<noteq> txId) (pendingTransactions service)"
proof (cases "status receipt")
  case True
  with assms show ?thesis by (auto simp: completeReceipt_def)
next
  case False
  show ?thesis
  proof (cases "snd (getRevertReason toNumber getProvider (transactionHash receipt)
                      (Some ''ropsten'') None)")
    case (Inl e)
    with False assms show ?thesis by (simp add: completeReceipt_def)
  next
    case (Inr reason)
    with False assms show ?thesis by (auto simp: completeReceipt_def)
  qed
qed

lemma pollReceipt_pending:
  assumes "pollReceipt web3Instance toNumber getProvider service txId n = Some y"
  shows "\<forall>r. snd y = Inr r \<longrightarrow>
    pendingTransactions (fst y) = filter (\<lambda>tx. tx \<noteq> txId) (pendingTransactions service)"
  using assms
proof (induction rule: pollReceipt.raw_induct [rotated 1, consumes 1])
  case (1 poll web3Instance toNumber getProvider service txId n y)
  show ?case
  proof (cases "getTransactionReceipt web3Instance txId n")
    case (Inl e)
    with 1(2) show ?thesis by auto
  next
    case (Inr answer)
    show ?thesis
    proof (cases answer)
      case None
      with Inr 1(2) have "poll web3Instance toNumber getProvider service txId (Suc n) = Some y"
        by simp
      then show ?thesis by (rule 1(1))
    next
      case (Some receipt)
      with Inr 1(2) have "completeReceipt toNumber getProvider service txId receipt = y"
        by simp
      then show ?thesis
        using completeReceipt_pending [of toNumber getProvider service txId receipt "fst y"]
        by (cases y) auto
    qed
  qed
qed

text \<open>\<^verbatim>\<open>getReceipt\<close> does return once a receipt arrives: if the query number \<open>k\<close> is the
  first that is answered with a receipt, the result is that of completing this receipt.\<close>

lemma pollReceipt_arrives:
  assumes "getTransactionReceipt web3Instance txId (n + k) = Inr (Some receipt)"
    and "\<forall>j < k. getTransactionReceipt web3Instance txId (n + j) = Inr None"
  shows "pollReceipt web3Instance toNumber getProvider service txId n
    = Some (completeReceipt toNumber getProvider service txId receipt)"
  using assms
proof (induction k arbitrary: n)
  case 0
  then show ?case by (subst pollReceipt.simps) simp
next
  case (Suc k)
  have "getTransactionReceipt web3Instance txId n = Inr None"
    using Suc.prems(2) [rule_format, of 0] by simp
  moreover have "pollReceipt web3Instance toNumber getProvider service txId (Suc n)
    = Some (completeReceipt toNumber getProvider service txId receipt)"
  proof (rule Suc.IH)
    show "getTransactionReceipt web3Instance txId (Suc n + k) = Inr (Some receipt)"
      using Suc.prems(1) by simp
    show "\<forall>j<k. getTransactionReceipt web3Instance txId (Suc n + j) = Inr None"
      using Suc.prems(2) by (metis Suc_less_eq add_Suc_right add_Suc)
  qed
  ultimately show ?case by (subst pollReceipt.simps) simp
qed

lemma getReceipt_arrives:
  assumes "getTransactionReceipt web3Instance txId k = Inr (Some receipt)"
    and "\<forall>j < k. getTransactionReceipt web3Instance txId j = Inr None"
  shows "getReceipt web3Instance toNumber getProvider service txId
    = Some (completeReceipt toNumber getProvider service txId receipt)"
  unfolding getReceipt_def
  using pollReceipt_arrives [of web3Instance txId 0 k receipt] assms by simp

lemma count_list_filter_other:
  "h \<noteq> x \<Longrightarrow> count_list (filter (\<lambda>tx. tx \<noteq> x) xs) h = count_list xs h"
  by (induction xs) auto

lemma getRevertReason_archive_sample:
  "getRevertReason numberOfDigits archiveNodes sampleHash (Some ''ropsten'') None
     = ([FetchTransaction sampleHash, Replay ''tx'' ''latest''], Inr (ascii ''hello''))"
proof -
  have d: "decodeMessage ''0x08c379a00000000000000000000000000000000000000000000000000000000000000020000000000000000000000000000000000000000000000000000000000000000568656c6c6f000000000000000000000000000000000000000000000000000000'' ''ropsten'' = Inr (ascii ''hello'')"
    using decodeMessage_def plainCodeString_hello toUtf8String_hello
    by (simp add: padOdd_def)
  show ?thesis
    by (simp add: getRevertReason_def normalizeInput_def toLowerCase_ropsten sampleHash_valid
        networks_def validateInputPostProvider_def kovanProbe_def validateBlockNumber_def
        replayAndDecode_def getCode_def archiveNodes_def archiveProvider_def d)
qed

text \<open>Claim C8. Whenever \<^verbatim>\<open>getReceipt\<close> returns a receipt for a transaction hash, be the
  status of the receipt success or failure, the hash is no longer among the pending
  transactions, and every other hash is pending exactly as often as before: the new
  list is the old one without the occurrences of the hash.\<close>

theorem getReceipt_removes_pending:
  assumes "getReceipt web3Instance toNumber getProvider service txId = Some (service', Inr r)"
  shows "txId \<notin> set (pendingTransactions service')
    \<and> (\<forall>h. h \<noteq> txId \<longrightarrow>
          count_list (pendingTransactions service') h
            = count_list (pendingTransactions service) h)
    \<and> pendingTransactions service'
        = filter (\<lambda>tx. tx \<noteq> txId) (pendingTransactions service)"
proof -
  have "pendingTransactions service'
      = filter (\<lambda>tx. tx \<noteq> txId) (pendingTransactions service)"
    using assms pollReceipt_pending [of web3Instance toNumber getProvider service txId 0
        "(service', Inr r)"]
    unfolding getReceipt_def by simp
  then show ?thesis by (simp add: count_list_filter_other)
qed

theorem getReceipt_removes_pending_witness:
  "getReceipt sampleWeb3 numberOfDigits archiveNodes
       \<lparr>pendingTransactions = [''0xaa'', sampleHash, ''0xbb'', sampleHash]\<rparr> sampleHash
     = Some (\<lparr>pendingTransactions = [''0xaa'', ''0xbb'']\<rparr>,
             Inr \<lparr>status = True, transactionHash = sampleHash, revertReason = None\<rparr>)
   \<and> getReceipt revertedWeb3 numberOfDigits archiveNodes
       \<lparr>pendingTransactions = [''0xaa'', sampleHash, ''0xbb'', sampleHash]\<rparr> sampleHash
     = Some (\<lparr>pendingTransactions = [''0xaa'', ''0xbb'']\<rparr>,
             Inr \<lparr>status = False, transactionHash = sampleHash,
                  revertReason = Some (ascii ''hello'')\<rparr>)
   \<and> sampleHash \<notin> set [''0xaa'', ''0xbb'']"
proof -
  have n: "sampleHash \<noteq> ''0xaa''" "sampleHash \<noteq> ''0xbb''"
    by (simp_all add: sampleHash_def)
  have s: "getReceipt sampleWeb3 numberOfDigits archiveNodes
       \<lparr>pendingTransactions = [''0xaa'', sampleHash, ''0xbb'', sampleHash]\<rparr> sampleHash
     = Some (\<lparr>pendingTransactions = [''0xaa'', ''0xbb'']\<rparr>,
             Inr \<lparr>status = True, transactionHash = sampleHash, revertReason = None\<rparr>)"
    using n
    by (subst getReceipt_arrives [where k = 2
          and receipt = "\<lparr>status = True, transactionHash = sampleHash\<rparr>"])
      (auto simp: sampleWeb3_def completeReceipt_def)
  have f: "getReceipt revertedWeb3 numberOfDigits archiveNodes
       \<lparr>pendingTransactions = [''0xaa'', sampleHash, ''0xbb'', sampleHash]\<rparr> sampleHash
     = Some (\<lparr>pendingTransactions = [''0xaa'', ''0xbb'']\<rparr>,
             Inr \<lparr>status = False, transactionHash = sampleHash,
                  revertReason = Some (ascii ''hello'')\<rparr>)"
    using n
    by (subst getReceipt_arrives [where k = 0
          and receipt = "\<lparr>status = False, transactionHash = sampleHash\<rparr>"])
      (auto simp: revertedWeb3_def sampleWeb3_def completeReceipt_def
        getRevertReason_archive_sample)
  show ?thesis
    using getReceipt_removes_pending [OF s] getReceipt_removes_pending [OF f] s f
    by simp
qed

lemma awaitHash_returns:
  assumes "awaitHash stream resultHash service = Some y"
  shows "resultHash \<noteq> None \<and> resultHash \<noteq> Some []"
  using assms
proof (induction rule: awaitHash.raw_induct [rotated 1, consumes 1])
  case prems: 1
  from prems show ?case by (fastforce split: option.splits if_splits)
qed

lemma awaitHash_undefined: "awaitHash stream None service = None"
  using awaitHash_returns [of stream None service]
  by (cases "awaitHash stream None service") auto

text \<open>Once the gas is estimated and the transaction handed to the provider,
  \<^verbatim>\<open>transaction\<close> never returns and never throws, whatever the stream is going to emit:
  its loop waits for a variable that only a handler can set, and keeps every handler
  from running.\<close>

lemma transaction_blocks:
  assumes "encodeMethod web3Instance m args = Inr dat"
    and "estimateGas web3Instance \<lparr>txFrom = sender, txTo = address m, txData = dat\<rparr> = Inr gas"
    and "sendTransaction web3Instance \<lparr>txFrom = sender, txTo = address m, txData = dat\<rparr> gas
           = Inr stream"
  shows "transaction web3Instance service sender m args = None"
  using assms by (simp add: transaction_def awaitHash_undefined)

text \<open>Claim C9 says that an error emitted by the submission stream aborts
  \<^verbatim>\<open>transaction\<close> and reaches the caller. The code does not do that. Below, the gas is
  estimated, the stream of the submission is going to emit one error, and
  \<^verbatim>\<open>transaction\<close> neither throws that error nor returns.\<close>

theorem transaction_stream_error_lost:
  "sendTransaction sampleWeb3
       \<lparr>txFrom = ''0x00001'', txTo = address getCalls, txData = ''0x2e52d606''\<rparr> 21000
     = Inr [SendError (TransportError OpaqueError)]
   \<and> transaction sampleWeb3 \<lparr>pendingTransactions = []\<rparr> ''0x00001'' getCalls [] = None"
proof -
  have "encodeMethod sampleWeb3 getCalls ([] :: nat list) = Inr ''0x2e52d606''"
    by (simp add: encodeMethod_def sampleWeb3_def)
  moreover have "estimateGas sampleWeb3
       \<lparr>txFrom = ''0x00001'', txTo = address getCalls, txData = ''0x2e52d606''\<rparr> = Inr 21000"
    by (simp add: sampleWeb3_def)
  moreover have e: "sendTransaction sampleWeb3
       \<lparr>txFrom = ''0x00001'', txTo = address getCalls, txData = ''0x2e52d606''\<rparr> 21000
     = Inr [SendError (TransportError OpaqueError)]"
    by (simp add: sampleWeb3_def)
  ultimately have
    "transaction sampleWeb3 \<lparr>pendingTransactions = []\<rparr> ''0x00001'' getCalls [] = None"
    by (rule transaction_blocks)
  with e show ?thesis by simp
qed

end
